theory Spec2Isabelle
  imports Complex_Main "HOL-Library.Sublist"
begin

section \<open>Dates: the ECMAScript time value\<close>

text \<open>
  A JavaScript \<open>Date\<close> is a time value: milliseconds since 1970-01-01T00:00Z, here an
  \<open>int\<close> (the invalid date is not modelled). The functions below are the abstract
  operations of the ECMAScript definition of \<open>Date\<close> (Day, TimeWithinDay, DayFromYear,
  YearFromTime, MonthFromTime, DateFromTime, MakeDay, MakeDate), taken on day numbers.
  The local time zone is a fixed offset \<open>tza\<close> in milliseconds (no daylight saving).
\<close>

definition msPerDay :: int where
  "msPerDay = 86400000"

definition Day :: "int \<Rightarrow> int" where
  "Day t = t div msPerDay"

definition TimeWithinDay :: "int \<Rightarrow> int" where
  "TimeWithinDay t = t mod msPerDay"

definition InLeapYear :: "int \<Rightarrow> bool" where
  "InLeapYear y = (y mod 4 = 0 \<and> (y mod 100 \<noteq> 0 \<or> y mod 400 = 0))"


definition DayFromYear :: "int \<Rightarrow> int" where
  "DayFromYear y =
     365 * (y - 1970) + (y - 1969) div 4 - (y - 1901) div 100 + (y - 1601) div 400"

text \<open>
  ECMAScript defines the year of a day as the largest \<open>y\<close> with \<open>DayFromYear y \<le> d\<close>.
  The computation below starts from the estimate by the mean year length and corrects it
  by at most one year; \<open>YearFromDay_bounds\<close> shows that it meets the definition.
\<close>

definition YearFromDay :: "int \<Rightarrow> int" where
  "YearFromDay d =
     (let e = 1970 + (400 * d) div 146097
      in if d < DayFromYear e then e - 1
         else if DayFromYear (e + 1) \<le> d then e + 1
         else e)"

definition DayWithinYear :: "int \<Rightarrow> int" where
  "DayWithinYear d = d - DayFromYear (YearFromDay d)"

text \<open>First day within the year of month \<open>m\<close> (0 = January), given the leap flag.\<close>

definition MonthStart :: "int \<Rightarrow> bool \<Rightarrow> int" where
  "MonthStart m leap =
     (let l = (if leap then 1 else 0)
      in if m = 0 then 0 else if m = 1 then 31 else if m = 2 then 59 + l
         else if m = 3 then 90 + l else if m = 4 then 120 + l else if m = 5 then 151 + l
         else if m = 6 then 181 + l else if m = 7 then 212 + l else if m = 8 then 243 + l
         else if m = 9 then 273 + l else if m = 10 then 304 + l else 334 + l)"

definition MonthOf :: "int \<Rightarrow> bool \<Rightarrow> int" where
  "MonthOf w leap =
     (let l = (if leap then 1 else 0)
      in if w < 31 then 0 else if w < 59 + l then 1 else if w < 90 + l then 2
         else if w < 120 + l then 3 else if w < 151 + l then 4 else if w < 181 + l then 5
         else if w < 212 + l then 6 else if w < 243 + l then 7 else if w < 273 + l then 8
         else if w < 304 + l then 9 else if w < 334 + l then 10 else 11)"

definition MonthFromDay :: "int \<Rightarrow> int" where
  "MonthFromDay d = MonthOf (DayWithinYear d) (InLeapYear (YearFromDay d))"

definition DateFromDay :: "int \<Rightarrow> int" where
  "DateFromDay d =
     DayWithinYear d - MonthStart (MonthFromDay d) (InLeapYear (YearFromDay d)) + 1"

definition MakeDay :: "int \<Rightarrow> int \<Rightarrow> int \<Rightarrow> int" where
  "MakeDay y m dt =
     (let ym = y + m div 12; mn = m mod 12
      in DayFromYear ym + MonthStart mn (InLeapYear ym) + dt - 1)"

definition MakeDate :: "int \<Rightarrow> int \<Rightarrow> int" where
  "MakeDate day time = day * msPerDay + time"

definition LocalTime :: "int \<Rightarrow> int \<Rightarrow> int" where
  "LocalTime tza t = t + tza"

definition UTC :: "int \<Rightarrow> int \<Rightarrow> int" where
  "UTC tza t = t - tza"

text \<open>The methods of \<open>Date\<close> that the hooks call; getters and setters work in local time.\<close>

definition getFullYear :: "int \<Rightarrow> int \<Rightarrow> int" where
  "getFullYear tza t = YearFromDay (Day (LocalTime tza t))"

definition getMonth :: "int \<Rightarrow> int \<Rightarrow> int" where
  "getMonth tza t = MonthFromDay (Day (LocalTime tza t))"

definition getDate :: "int \<Rightarrow> int \<Rightarrow> int" where
  "getDate tza t = DateFromDay (Day (LocalTime tza t))"

definition setDate :: "int \<Rightarrow> int \<Rightarrow> int \<Rightarrow> int" where
  "setDate tza t dt =
     UTC tza (MakeDate (MakeDay (getFullYear tza t) (getMonth tza t) dt)
                       (TimeWithinDay (LocalTime tza t)))"

definition setMonth :: "int \<Rightarrow> int \<Rightarrow> int \<Rightarrow> int" where
  "setMonth tza t m =
     UTC tza (MakeDate (MakeDay (getFullYear tza t) m (getDate tza t))
                       (TimeWithinDay (LocalTime tza t)))"

definition setFullYear :: "int \<Rightarrow> int \<Rightarrow> int \<Rightarrow> int" where
  "setFullYear tza t y =
     UTC tza (MakeDate (MakeDay y (getMonth tza t) (getDate tza t))
                       (TimeWithinDay (LocalTime tza t)))"

text \<open>\<open>d.setHours(0, 0, 0, 0)\<close>: local midnight of the local day.\<close>

definition setHours0 :: "int \<Rightarrow> int \<Rightarrow> int" where
  "setHours0 tza t = UTC tza (MakeDate (Day (LocalTime tza t)) 0)"

text \<open>
  \<open>new Date(s)\<close> for a date-only string \<open>YYYY-MM-DD\<close> (month 1 to 12) is UTC midnight of
  that day; \<open>d.toISOString().split('T')[0]\<close> is the UTC calendar day of \<open>d\<close>, and read
  back as a date it is UTC midnight of that day.
\<close>

definition dateOnly :: "int \<Rightarrow> int \<Rightarrow> int \<Rightarrow> int" where
  "dateOnly y m d = MakeDate (MakeDay y (m - 1) d) 0"

definition isoDay :: "int \<Rightarrow> int" where
  "isoDay t = MakeDate (Day t) 0"




section \<open>Strings: String(n) and padStart\<close>

definition digitChar :: "nat \<Rightarrow> char" where
  "digitChar n = ''0123456789'' ! n"

fun digits :: "nat \<Rightarrow> string" where
  "digits n = (if n < 10 then [digitChar n] else digits (n div 10) @ [digitChar (n mod 10)])"

declare digits.simps [simp del]

text \<open>\<open>String(n)\<close> for a natural number: its decimal digits.\<close>

definition String_of :: "nat \<Rightarrow> string" where
  "String_of n = digits n"

definition padStart :: "nat \<Rightarrow> char \<Rightarrow> string \<Rightarrow> string" where
  "padStart w c s = replicate (w - length s) c @ s"


section \<open>Documents\<close>

text \<open>
  Amounts are JavaScript numbers; they are modelled as exact rationals, and an absent
  (\<open>undefined\<close> or \<open>null\<close>) field is \<open>None\<close>. Date fields hold the time value that
  \<open>new Date(field)\<close> yields.
\<close>

datatype status = Pending | Paid | Overdue | Cancelled

datatype operation = Create | Update | Delete

datatype lateness = Current | Late

datatype cadence = Weekly | BiWeekly | Monthly | Quarterly | Annually

text \<open>
  The \<open>account\<close> field of a billing record: absent, the id of an account, or an object
  (a populated relationship).
\<close>

datatype account_ref = NoRef | RefId string | RefObject string

record billing_doc =
  doc_id :: string
  billingNumber :: "string option"
  account :: account_ref
  amount :: "rat option"
  billingDate :: "int option"
  dueDate :: "int option"
  status :: "status option"
  paidDate :: "int option"
  paidAmount :: "rat option"
  description :: "string option"
  stripeInvoiceId :: "string option"

record billing_info =
  billingDay :: "int option"
  billingCadence :: "cadence option"
  nextBillingDate :: "int option"
  accountBalance :: "rat option"

record payment_info =
  paymentMethod :: "string option"
  lastPaymentDate :: "int option"
  lastPaymentAmount :: "rat option"
  autoPay :: bool
  isLate :: "lateness option"
  latePaymentCount :: "int option"
  totalLateFees :: "rat option"
  gracePeriodDays :: "int option"

text \<open>
  An absent group (\<open>account.billingInfo\<close> undefined) is the group with every field
  absent: the hooks read it through \<open>?.\<close> and spread it into an object.
\<close>

record account_doc =
  email :: "string option"
  name :: "string option"
  accountNumber :: "string option"
  stripeCustomerId :: "string option"
  billingInfo :: billing_info
  paymentInfo :: payment_info

text \<open>\<open>x || 0\<close> on a number field, and \<open>x || d\<close> in general (0 is falsy).\<close>

definition orElse :: "rat option \<Rightarrow> rat \<Rightarrow> rat" where
  "orElse x d = (case x of None \<Rightarrow> d | Some v \<Rightarrow> if v = 0 then d else v)"

definition orElseInt :: "int option \<Rightarrow> int \<Rightarrow> int" where
  "orElseInt x d = (case x of None \<Rightarrow> d | Some v \<Rightarrow> if v = 0 then d else v)"

definition orElseOpt :: "'a option \<Rightarrow> 'a option \<Rightarrow> 'a option" where
  "orElseOpt x y = (case x of None \<Rightarrow> y | Some v \<Rightarrow> Some v)"

text \<open>\<open>!doc.account || typeof doc.account !== 'string'\<close>: the guard of both hooks.\<close>

definition accountId :: "billing_doc \<Rightarrow> string option" where
  "accountId doc =
     (case account doc of RefId s \<Rightarrow> if s = [] then None else Some s | _ \<Rightarrow> None)"

section \<open>residential-billing: the afterChange hook, account update data\<close>

text \<open>\<open>balanceChange\<close> (lines 80 to 93 of the hook).\<close>

definition balanceChange :: "operation \<Rightarrow> billing_doc option \<Rightarrow> billing_doc \<Rightarrow> rat" where
  "balanceChange operation previousDoc doc =
     (if operation = Create then orElse (amount doc) 0
      else if operation = Update \<and> previousDoc \<noteq> None then
        (let previousAmount = orElse (amount (the previousDoc)) 0;
             currentAmount = orElse (amount doc) 0
         in currentAmount - previousAmount)
      else if operation = Delete then - (orElse (amount doc) 0)
      else 0)"

text \<open>
  \<open>updateData\<close>: the new \<open>billingInfo\<close> group and, when the hook sets it, the new
  \<open>paymentInfo\<close> group.
\<close>

record update_data =
  ud_billingInfo :: billing_info
  ud_paymentInfo :: "payment_info option"

definition setBalance :: "update_data \<Rightarrow> rat \<Rightarrow> update_data" where
  "setBalance ud b = ud\<lparr>ud_billingInfo := (ud_billingInfo ud)\<lparr>accountBalance := Some b\<rparr>\<rparr>"

text \<open>Lines 95 to 148: balance delta and payment status updates. \<open>now\<close> is \<open>new Date()\<close>.\<close>

definition paymentUpdate ::
  "int \<Rightarrow> account_doc \<Rightarrow> operation \<Rightarrow> billing_doc option \<Rightarrow> billing_doc \<Rightarrow> update_data" where
  "paymentUpdate now acct operation previousDoc doc =
     (let currentBalance = orElse (accountBalance (billingInfo acct)) 0;
          newBalance = currentBalance + balanceChange operation previousDoc doc;
          updateData = \<lparr>ud_billingInfo = (billingInfo acct)\<lparr>accountBalance := Some newBalance\<rparr>,
                        ud_paymentInfo = None\<rparr>
      in if operation = Update \<and> previousDoc \<noteq> None then
           (let previousStatus = status (the previousDoc);
                currentStatus = status doc;
                previousPaidAmount = orElse (paidAmount (the previousDoc)) 0;
                currentPaidAmount = orElse (paidAmount doc) 0
            in if currentStatus = Some Paid \<and> previousStatus \<noteq> Some Paid then
                 (let paid = (if currentPaidAmount \<noteq> 0 then currentPaidAmount
                              else orElse (amount doc) 0);
                      ud1 = updateData\<lparr>ud_paymentInfo := Some ((paymentInfo acct)
                              \<lparr>lastPaymentDate := Some (case paidDate doc of Some d \<Rightarrow> d
                                                             | None \<Rightarrow> isoDay now),
                               lastPaymentAmount := Some paid\<rparr>)\<rparr>
                  in if paid > 0 then setBalance ud1 (max 0 (newBalance - paid)) else ud1)
               else if previousStatus = Some Paid \<and> currentStatus \<noteq> Some Paid then
                 (if previousPaidAmount > 0
                  then setBalance updateData (newBalance + previousPaidAmount)
                  else updateData)
               else if currentStatus = Some Paid \<and> previousStatus = Some Paid then
                 (let paidAmountDifference = currentPaidAmount - previousPaidAmount
                  in if paidAmountDifference \<noteq> 0 then
                       (let ud1 = setBalance updateData (max 0 (newBalance - paidAmountDifference))
                        in if currentPaidAmount > 0 then
                             ud1\<lparr>ud_paymentInfo := Some ((paymentInfo acct)
                               \<lparr>lastPaymentDate :=
                                  Some (case orElseOpt (paidDate doc)
                                               (lastPaymentDate (paymentInfo acct)) of
                                          Some d \<Rightarrow> d | None \<Rightarrow> isoDay now),
                                lastPaymentAmount := Some currentPaidAmount\<rparr>)\<rparr>
                           else ud1)
                     else updateData)
               else updateData)
         else updateData)"

text \<open>
  Lines 150 to 185, without the write to the billing record: whether the bill is overdue,
  and the account's late status.
\<close>

definition graceDays :: "account_doc \<Rightarrow> int" where
  "graceDays acct = orElseInt (gracePeriodDays (paymentInfo acct)) 5"

definition lateDateOf :: "int \<Rightarrow> account_doc \<Rightarrow> int \<Rightarrow> int" where
  "lateDateOf tza acct due = setDate tza due (getDate tza due + graceDays acct)"

definition checksLate :: "billing_doc \<Rightarrow> bool" where
  "checksLate doc =
     (dueDate doc \<noteq> None \<and> status doc \<noteq> Some Paid \<and> status doc \<noteq> Some Cancelled)"

definition isOverdue :: "int \<Rightarrow> int \<Rightarrow> account_doc \<Rightarrow> billing_doc \<Rightarrow> bool" where
  "isOverdue now tza acct doc = (now > lateDateOf tza acct (the (dueDate doc)))"

definition lateUpdate ::
  "int \<Rightarrow> int \<Rightarrow> account_doc \<Rightarrow> billing_doc \<Rightarrow> update_data \<Rightarrow> update_data" where
  "lateUpdate now tza acct doc updateData =
     (if checksLate doc then
        (let pinfo = (case ud_paymentInfo updateData of None \<Rightarrow> paymentInfo acct
                      | Some p \<Rightarrow> p);
             balance = orElse (accountBalance (ud_billingInfo updateData)) 0;
             lastPayment = orElseOpt (lastPaymentDate pinfo)
                                     (lastPaymentDate (paymentInfo acct))
         in if isOverdue now tza acct doc \<and> balance > 0 then
              (let paymentWasLate = (case lastPayment of None \<Rightarrow> True
                                     | Some p \<Rightarrow> p < the (dueDate doc))
               in updateData\<lparr>ud_paymentInfo :=
                    Some (pinfo\<lparr>isLate := Some (if paymentWasLate then Late else Current)\<rparr>)\<rparr>)
            else if balance \<le> 0 then
              updateData\<lparr>ud_paymentInfo := Some (pinfo\<lparr>isLate := Some Current\<rparr>)\<rparr>
            else updateData\<lparr>ud_paymentInfo := Some pinfo\<rparr>)
      else updateData)"

text \<open>
  \<open>payload.update\<close> on the account with \<open>data: updateData\<close>: the groups that the data
  holds replace the account's.
\<close>

definition applyUpdate :: "update_data \<Rightarrow> account_doc \<Rightarrow> account_doc" where
  "applyUpdate ud acct =
     acct\<lparr>billingInfo := ud_billingInfo ud,
          paymentInfo := (case ud_paymentInfo ud of None \<Rightarrow> paymentInfo acct | Some p \<Rightarrow> p)\<rparr>"

section \<open>The store, the environment and the effects of a hook\<close>

text \<open>
  The hooks run against Payload's local API (\<open>req.payload\<close>), Stripe, and the mail
  transport. The store holds the two collections; \<open>env\<close> fixes, for one run of a hook,
  the clock and what each outside call does (a call that rejects makes the \<open>await\<close>
  throw). \<open>trace\<close> records console output and mail, oldest first. A write to the
  residential-billing collection from inside the hook runs that collection's hooks again;
  the nested run is not followed here: it computes a balance change of 0 and its account
  write is either overwritten by the outer write or repeats the stored balance.
\<close>

datatype effect =
    ConsoleError string
  | ConsoleWarn string
  | MailSent "string option" "string option" "string option"

record world =
  accounts :: "string \<rightharpoonup> account_doc"
  records :: "billing_doc list"
  trace :: "effect list"

record env =
  now :: int
  tza :: int
  findByIDThrows :: bool
  updateAccountThrows :: bool
  updateRecordThrows :: bool
  stripeSecretKey :: bool
  stripeCalls :: "string option"
  hostedInvoiceUrl :: "string option option"
  smtpHost :: bool
  sendMailThrows :: bool

datatype 'a result = Throws string | Returns 'a

definition emit :: "effect \<Rightarrow> world \<Rightarrow> world" where
  "emit x w = w\<lparr>trace := trace w @ [x]\<rparr>"

text \<open>\<open>payload.update\<close> on a billing record, by id.\<close>

definition updateRecord ::
  "env \<Rightarrow> string \<Rightarrow> (billing_doc \<Rightarrow> billing_doc) \<Rightarrow> world \<Rightarrow> unit result \<times> world" where
  "updateRecord e rid f w =
     (if updateRecordThrows e then (Throws ''update residential-billing'', w)
      else (Returns (),
            w\<lparr>records := map (\<lambda>r. if doc_id r = rid then f r else r) (records w)\<rparr>))"

text \<open>\<open>payload.update\<close> on an account, by id, with \<open>data: updateData\<close>.\<close>

definition updateAccount ::
  "env \<Rightarrow> string \<Rightarrow> update_data \<Rightarrow> world \<Rightarrow> unit result \<times> world" where
  "updateAccount e aid ud w =
     (if updateAccountThrows e then (Throws ''update accounts'', w)
      else (case accounts w aid of
              None \<Rightarrow> (Throws ''update accounts: not found'', w)
            | Some acct \<Rightarrow> (Returns (), w\<lparr>accounts := (accounts w)(aid \<mapsto> applyUpdate ud acct)\<rparr>)))"

section \<open>invoice-stripe: Stripe invoice and invoice email\<close>

text \<open>
  \<open>createStripeInvoice\<close>: null when Stripe is not configured or the account has no
  customer id; an error of a Stripe call is logged and thrown again.
\<close>

definition createStripeInvoice ::
  "env \<Rightarrow> billing_doc \<Rightarrow> account_doc \<Rightarrow> world \<Rightarrow> string option result \<times> world" where
  "createStripeInvoice e billingRecord acct w =
     (if \<not> stripeSecretKey e
      then (Returns None, emit (ConsoleWarn ''Stripe not configured - skipping invoice creation'') w)
      else if stripeCustomerId acct = None \<or> stripeCustomerId acct = Some []
      then (Returns None, emit (ConsoleWarn ''Account does not have a Stripe customer ID'') w)
      else (case stripeCalls e of
              None \<Rightarrow> (Throws ''stripe'', emit (ConsoleError ''Error creating Stripe invoice:'') w)
            | Some invoiceId \<Rightarrow> (Returns (Some invoiceId), w)))"

text \<open>\<open>getInvoicePaymentLink\<close>: catches its own errors and returns null.\<close>

definition getInvoicePaymentLink :: "env \<Rightarrow> string \<Rightarrow> world \<Rightarrow> string option \<times> world" where
  "getInvoicePaymentLink e invoiceId w =
     (if \<not> stripeSecretKey e then (None, w)
      else (case hostedInvoiceUrl e of
              None \<Rightarrow> (None, emit (ConsoleError ''Error retrieving invoice payment link:'') w)
            | Some url \<Rightarrow> (if url = Some [] then None else url, w)))"

text \<open>
  \<open>sendInvoiceEmail\<close>: returns without mail when the account has no email or SMTP is
  not configured; an error of the transport is caught and logged.
\<close>

definition sendInvoiceEmail ::
  "env \<Rightarrow> account_doc \<Rightarrow> billing_doc \<Rightarrow> string option \<Rightarrow> string option \<Rightarrow> world \<Rightarrow> world" where
  "sendInvoiceEmail e acct billingRecord invoiceId paymentLink w =
     (if email acct = None \<or> email acct = Some []
      then emit (ConsoleWarn ''Account does not have an email address'') w
      else if \<not> smtpHost e
      then emit (ConsoleWarn ''SMTP not configured - skipping invoice email'') w
      else if sendMailThrows e
      then emit (ConsoleError ''Error sending invoice email:'') w
      else emit (MailSent (email acct) (billingNumber billingRecord) paymentLink) w)"

section \<open>residential-billing: the hooks\<close>

text \<open>
  Lines 194 to 251 of afterChange: the Stripe invoice and the email for a created record.
  The inner try block is \<open>notifyTry\<close>; its catch sends the email without a link.
\<close>

definition notifyTry :: "env \<Rightarrow> account_doc \<Rightarrow> billing_doc \<Rightarrow> world \<Rightarrow> unit result \<times> world" where
  "notifyTry e acct doc w =
     (case createStripeInvoice e doc acct w of
        (Throws err, w1) \<Rightarrow> (Throws err, w1)
      | (Returns None, w1) \<Rightarrow> (Returns (), sendInvoiceEmail e acct doc None None w1)
      | (Returns (Some invoiceId), w1) \<Rightarrow>
          (case updateRecord e (doc_id doc) (\<lambda>r. r\<lparr>stripeInvoiceId := Some invoiceId\<rparr>) w1 of
             (Throws err, w2) \<Rightarrow> (Throws err, w2)
           | (Returns u, w2) \<Rightarrow>
               (case getInvoicePaymentLink e invoiceId w2 of
                  (paymentLink, w3) \<Rightarrow>
                    (Returns (), sendInvoiceEmail e acct doc (Some invoiceId) paymentLink w3))))"

definition notify :: "env \<Rightarrow> account_doc \<Rightarrow> billing_doc \<Rightarrow> world \<Rightarrow> unit result \<times> world" where
  "notify e acct doc w =
     (case notifyTry e acct doc w of
        (Throws err, w1) \<Rightarrow>
          (Returns (),
           sendInvoiceEmail e acct doc None None
             (emit (ConsoleError ''Error creating Stripe invoice or sending email:'') w1))
      | (Returns u, w1) \<Rightarrow> (Returns (), w1))"

definition notifies :: "operation \<Rightarrow> billing_doc \<Rightarrow> bool" where
  "notifies operation doc = (operation = Create \<and> status doc \<noteq> Some Cancelled)"

text \<open>Whether the hook writes the status overdue to the record (line 161).\<close>

definition marksOverdue :: "env \<Rightarrow> account_doc \<Rightarrow> billing_doc \<Rightarrow> bool" where
  "marksOverdue e acct doc =
     (checksLate doc \<and> isOverdue (now e) (tza e) acct doc \<and> status doc = Some Pending)"

text \<open>The outer try block of afterChange (lines 68 to 251), for the account id \<open>aid\<close>.\<close>

definition afterChangeTry ::
  "env \<Rightarrow> operation \<Rightarrow> billing_doc option \<Rightarrow> billing_doc \<Rightarrow> string \<Rightarrow> world
     \<Rightarrow> unit result \<times> world" where
  "afterChangeTry e operation previousDoc doc aid w =
     (if findByIDThrows e then (Throws ''findByID accounts'', w)
      else (case accounts w aid of
        None \<Rightarrow> (Returns (), emit (ConsoleError ''Account not found for billing record:'') w)
      | Some acct \<Rightarrow>
          (let updateData = paymentUpdate (now e) acct operation previousDoc doc
           in (case (if marksOverdue e acct doc
                     then updateRecord e (doc_id doc) (\<lambda>r. r\<lparr>status := Some Overdue\<rparr>) w
                     else (Returns (), w)) of
                 (Throws err, w1) \<Rightarrow> (Throws err, w1)
               | (Returns u, w1) \<Rightarrow>
                   (case updateAccount e aid (lateUpdate (now e) (tza e) acct doc updateData) w1 of
                      (Throws err, w2) \<Rightarrow> (Throws err, w2)
                    | (Returns u, w2) \<Rightarrow>
                        (if notifies operation doc then notify e acct doc w2
                         else (Returns (), w2)))))))"

definition afterChange ::
  "env \<Rightarrow> operation \<Rightarrow> billing_doc option \<Rightarrow> billing_doc \<Rightarrow> world \<Rightarrow> unit result \<times> world" where
  "afterChange e operation previousDoc doc w =
     (case accountId doc of
        None \<Rightarrow> (Returns (), w)
      | Some aid \<Rightarrow>
          (case afterChangeTry e operation previousDoc doc aid w of
             (Throws err, w1) \<Rightarrow>
               (Returns (), emit (ConsoleError ''Error updating account from billing record:'') w1)
           | (Returns u, w1) \<Rightarrow> (Returns (), w1)))"

text \<open>The afterDelete hook (lines 258 to 293).\<close>

definition deleteUpdate :: "account_doc \<Rightarrow> billing_doc \<Rightarrow> update_data" where
  "deleteUpdate acct doc =
     (let currentBalance = orElse (accountBalance (billingInfo acct)) 0;
          billingAmount = orElse (amount doc) 0;
          newBalance = currentBalance - billingAmount
      in \<lparr>ud_billingInfo = (billingInfo acct)\<lparr>accountBalance := Some newBalance\<rparr>,
          ud_paymentInfo = None\<rparr>)"

definition afterDeleteTry :: "env \<Rightarrow> billing_doc \<Rightarrow> string \<Rightarrow> world \<Rightarrow> unit result \<times> world" where
  "afterDeleteTry e doc aid w =
     (if findByIDThrows e then (Throws ''findByID accounts'', w)
      else (case accounts w aid of
              None \<Rightarrow> (Returns (), w)
            | Some acct \<Rightarrow> updateAccount e aid (deleteUpdate acct doc) w))"

definition afterDelete :: "env \<Rightarrow> billing_doc \<Rightarrow> world \<Rightarrow> unit result \<times> world" where
  "afterDelete e doc w =
     (case accountId doc of
        None \<Rightarrow> (Returns (), w)
      | Some aid \<Rightarrow>
          (case afterDeleteTry e doc aid w of
             (Throws err, w1) \<Rightarrow>
               (Returns (),
                emit (ConsoleError ''Error updating account balance after billing deletion:'') w1)
           | (Returns u, w1) \<Rightarrow> (Returns (), w1)))"

text \<open>
  The beforeChange hook (lines 29 to 60): billing number, default due date, and the
  overdue status. \<open>totalDocs\<close> is the count of the collection.
\<close>

definition billNumber :: "nat \<Rightarrow> string" where
  "billNumber totalDocs = ''BILL-'' @ padStart 6 (CHR ''0'') (String_of (totalDocs + 1))"

definition beforeChange :: "env \<Rightarrow> operation \<Rightarrow> billing_doc \<Rightarrow> world \<Rightarrow> billing_doc" where
  "beforeChange e operation data w =
     (let d1 = (if operation = Create \<and> (billingNumber data = None \<or> billingNumber data = Some [])
                then data\<lparr>billingNumber := Some (billNumber (length (records w)))\<rparr>
                else data);
          d2 = (case (billingDate d1, dueDate d1) of
                  (Some bd, None) \<Rightarrow>
                    d1\<lparr>dueDate := Some (isoDay (setDate (tza e) bd (getDate (tza e) bd + 30)))\<rparr>
                | _ \<Rightarrow> d1)
      in if dueDate d2 \<noteq> None \<and> status d2 \<noteq> Some Paid \<and> status d2 \<noteq> Some Cancelled
            \<and> setHours0 (tza e) (now e) > setHours0 (tza e) (the (dueDate d2))
            \<and> (status d2 = None \<or> status d2 = Some Pending)
         then d2\<lparr>status := Some Overdue\<rparr>
         else d2)"

text \<open>
  The create operation of the local API around the hooks: the schema's default for
  \<open>status\<close> (\<open>defaultValue: 'pending'\<close>), beforeChange, the write of the record,
  afterChange. An error thrown by a hook makes the operation fail and its writes are
  rolled back. Access control and field validation are not modelled.
\<close>

definition withDefaults :: "billing_doc \<Rightarrow> billing_doc" where
  "withDefaults data = (if status data = None then data\<lparr>status := Some Pending\<rparr> else data)"

definition createRecord :: "env \<Rightarrow> billing_doc \<Rightarrow> world \<Rightarrow> billing_doc result \<times> world" where
  "createRecord e data w =
     (let doc = beforeChange e Create (withDefaults data) w;
          w1 = w\<lparr>records := records w @ [doc]\<rparr>
      in (case afterChange e Create None doc w1 of
            (Throws err, w2) \<Rightarrow> (Throws err, w\<lparr>trace := trace w2\<rparr>)
          | (Returns u, w2) \<Rightarrow> (Returns doc, w2)))"

section \<open>commercial-accounts: the beforeChange hook\<close>

text \<open>
  Lines 125 to 176: the next billing date. \<open>today\<close> is \<open>new Date()\<close>, \<open>billingDate\<close> the
  day of the month (the field \<open>billingInfo.billingDate\<close>, in the record \<open>billingDay\<close>), and
  \<open>Math.floor\<close> of a quotient is \<open>div\<close>.
\<close>

definition nextBilling :: "int \<Rightarrow> int \<Rightarrow> int \<Rightarrow> cadence \<Rightarrow> int option \<Rightarrow> int" where
  "nextBilling z today billingDate' cadence serviceStartDate =
     (if cadence = Weekly \<or> cadence = BiWeekly then
        (let base = (case serviceStartDate of Some s \<Rightarrow> s | None \<Rightarrow> today);
             weeksSinceStart = (today - base) div (1000 * 60 * 60 * 24 * 7);
             periodsSinceStart = (if cadence = Weekly then weeksSinceStart
                                  else weeksSinceStart div 2);
             periodsToAdd = (if cadence = Weekly then periodsSinceStart + 1
                             else (periodsSinceStart + 1) * 2)
         in setDate z base (getDate z base + periodsToAdd * 7))
      else
        (let nb = setDate z today billingDate'
         in if nb < today then
              (case cadence of
                 Monthly \<Rightarrow> setMonth z nb (getMonth z nb + 1)
               | Quarterly \<Rightarrow> setMonth z nb (getMonth z nb + 3)
               | Annually \<Rightarrow> setFullYear z nb (getFullYear z nb + 1)
               | _ \<Rightarrow> nb)
            else nb))"





definition nextBillingDateValue :: "int \<Rightarrow> int \<Rightarrow> int" where
  "nextBillingDateValue z nb = dateOnly (getFullYear z nb) (getMonth z nb + 1) (getDate z nb)"

text \<open>
  The part of the incoming account data that the hook reads: the two groups and
  \<open>serviceInfo.serviceStartDate\<close>.
\<close>

record commercial_data =
  cd_billingInfo :: "billing_info option"
  cd_paymentInfo :: "payment_info option"
  cd_serviceStartDate :: "int option"

definition computeNextBillingDate :: "int \<Rightarrow> int \<Rightarrow> commercial_data \<Rightarrow> commercial_data" where
  "computeNextBillingDate z today data =
     (case cd_billingInfo data of
        None \<Rightarrow> data
      | Some bi \<Rightarrow>
          (case (billingDay bi, billingCadence bi) of
             (Some bd, Some c) \<Rightarrow>
               (if bd = 0 then data
                else data\<lparr>cd_billingInfo := Some (bi\<lparr>nextBillingDate :=
                       Some (nextBillingDateValue z
                               (nextBilling z today bd c (cd_serviceStartDate data)))\<rparr>)\<rparr>)
           | _ \<Rightarrow> data))"

text \<open>
  Lines 178 to 209: the late status, when both groups are present. The hook calls
  \<open>new Date()\<close> in each block; the model takes one time for both.
\<close>

definition lateCheck :: "int \<Rightarrow> int \<Rightarrow> commercial_data \<Rightarrow> commercial_data" where
  "lateCheck z today data =
     (case (cd_billingInfo data, cd_paymentInfo data) of
        (Some bi, Some pinfo) \<Rightarrow>
          (let balance = orElse (accountBalance bi) 0;
               grace = orElseInt (gracePeriodDays pinfo) 5
           in if nextBillingDate bi \<noteq> None \<and> balance > 0 then
                (let due = the (nextBillingDate bi);
                     lateDate = setDate z due (getDate z due + grace);
                     late = (today > lateDate \<and> balance > 0
                             \<and> (case lastPaymentDate pinfo of None \<Rightarrow> True | Some p \<Rightarrow> p < due))
                 in data\<lparr>cd_paymentInfo :=
                         Some (pinfo\<lparr>isLate := Some (if late then Late else Current)\<rparr>)\<rparr>)
              else if balance \<le> 0 then
                data\<lparr>cd_paymentInfo := Some (pinfo\<lparr>isLate := Some Current\<rparr>)\<rparr>
              else data)
      | _ \<Rightarrow> data)"

definition commercialBeforeChange :: "int \<Rightarrow> int \<Rightarrow> commercial_data \<Rightarrow> commercial_data" where
  "commercialBeforeChange z today data = lateCheck z today (computeNextBillingDate z today data)"






section \<open>invoices: the beforeChange hook\<close>

text \<open>
  The invoice data that the hook reads, and what the local API answers during one run:
  the borough of each account, the code of each borough, and the invoice numbers of the
  invoices collection in the order in which \<open>find\<close> returns them.
\<close>

record invoice_data =
  customer :: account_ref
  invoiceNumber :: "string option"














section \<open>The account after a hook\<close>

definition balanceOf :: "account_doc \<Rightarrow> rat" where
  "balanceOf acct = orElse (accountBalance (billingInfo acct)) 0"

text \<open>The account document that afterChange writes for the account \<open>acct\<close> it has read.\<close>

definition reconcile ::
  "int \<Rightarrow> int \<Rightarrow> account_doc \<Rightarrow> operation \<Rightarrow> billing_doc option \<Rightarrow> billing_doc \<Rightarrow> account_doc" where
  "reconcile t z acct operation previousDoc doc =
     applyUpdate (lateUpdate t z acct doc (paymentUpdate t acct operation previousDoc doc)) acct"

definition storedBalance :: "world \<Rightarrow> string \<Rightarrow> rat option" where
  "storedBalance w aid = map_option balanceOf (accounts w aid)"

text \<open>No call to the local API rejects during the run.\<close>

definition succeeds :: "env \<Rightarrow> bool" where
  "succeeds e = (\<not> findByIDThrows e \<and> \<not> updateRecordThrows e \<and> \<not> updateAccountThrows e)"


text \<open>
  What \<open>sendInvoiceEmail\<close> leaves in the trace: every call leaves exactly one of these,
  so a run has called it when the trace has grown by one of them.
\<close>

definition isInvoiceEmailEffect :: "effect \<Rightarrow> bool" where
  "isInvoiceEmailEffect x =
     (case x of
        MailSent to number link \<Rightarrow> True
      | ConsoleWarn s \<Rightarrow> s = ''Account does not have an email address''
                          \<or> s = ''SMTP not configured - skipping invoice email''
      | ConsoleError s \<Rightarrow> s = ''Error sending invoice email:'')"


definition extends :: "world \<Rightarrow> world \<Rightarrow> bool \<Rightarrow> bool" where
  "extends w w' mail =
     (\<exists>xs. trace w' = trace w @ xs \<and> ((\<exists>x \<in> set xs. isInvoiceEmailEffect x) = mail))"



section \<open>Sample documents\<close>

definition sampleAccount :: "rat \<Rightarrow> account_doc" where
  "sampleAccount b =
     \<lparr>email = Some ''resident@example.com'', name = Some ''Resident'',
      accountNumber = Some ''ACC-000001'', stripeCustomerId = None,
      billingInfo = \<lparr>billingDay = Some 15, billingCadence = Some Monthly,
                     nextBillingDate = None, accountBalance = Some b\<rparr>,
      paymentInfo = \<lparr>paymentMethod = None, lastPaymentDate = None, lastPaymentAmount = None,
                     autoPay = False, isLate = Some Current, latePaymentCount = Some 0,
                     totalLateFees = Some 0, gracePeriodDays = Some 5\<rparr>\<rparr>"

definition sampleBill :: "rat \<Rightarrow> status \<Rightarrow> rat option \<Rightarrow> billing_doc" where
  "sampleBill a st paid =
     \<lparr>doc_id = ''r1'', billingNumber = Some ''BILL-000001'', account = RefId ''a1'',
      amount = Some a, billingDate = Some (dateOnly 2024 3 15),
      dueDate = Some (dateOnly 2024 4 14), status = Some st, paidDate = None,
      paidAmount = paid, description = None, stripeInvoiceId = None\<rparr>"

definition sampleEnv :: env where
  "sampleEnv =
     \<lparr>now = dateOnly 2024 3 15, tza = 0, findByIDThrows = False, updateAccountThrows = False,
      updateRecordThrows = False, stripeSecretKey = False, stripeCalls = None,
      hostedInvoiceUrl = None, smtpHost = False, sendMailThrows = False\<rparr>"

definition sampleWorld :: "rat \<Rightarrow> billing_doc list \<Rightarrow> world" where
  "sampleWorld b rs = \<lparr>accounts = [''a1'' \<mapsto> sampleAccount b], records = rs, trace = []\<rparr>"


definition noWriteEnv :: env where
  "noWriteEnv = sampleEnv\<lparr>updateAccountThrows := True\<rparr>"



section \<open>Properties of the calendar\<close>































lemma msPerDay_pos: "0 < msPerDay"
  by (simp add: msPerDay_def)

lemma TimeWithinDay_bounds: "0 \<le> TimeWithinDay t" "TimeWithinDay t < msPerDay"
  using msPerDay_pos by (simp_all add: TimeWithinDay_def)


lemma Day_MakeDate:
  assumes "0 \<le> r" and "r < msPerDay"
  shows "Day (MakeDate d r) = d" and "TimeWithinDay (MakeDate d r) = r"
proof -
  have e: "MakeDate d r = msPerDay * d + r" by (simp add: MakeDate_def)
  show "Day (MakeDate d r) = d"
    unfolding Day_def using int_div_pos_eq [OF e assms] .
  show "TimeWithinDay (MakeDate d r) = r"
    unfolding TimeWithinDay_def using int_mod_pos_eq [OF e assms] .
qed

lemma Day_mono: "s \<le> t \<Longrightarrow> Day s \<le> Day t"
  unfolding Day_def using msPerDay_pos by (intro zdiv_mono1) simp_all

lemma LocalTime_UTC [simp]: "LocalTime z (UTC z t) = t"
  by (simp add: LocalTime_def UTC_def)







lemma local_setMonth:
  "Day (LocalTime z (setMonth z t m)) = MakeDay (getFullYear z t) m (getDate z t)"
  "TimeWithinDay (LocalTime z (setMonth z t m)) = TimeWithinDay (LocalTime z t)"
  by (simp_all add: setMonth_def Day_MakeDate TimeWithinDay_bounds)







section \<open>Properties of the hooks\<close>

subsection \<open>What the hooks leave alone\<close>

lemma emit_accounts [simp]: "accounts (emit x w) = accounts w"
  by (simp add: emit_def)

lemma emit_records [simp]: "records (emit x w) = records w"
  by (simp add: emit_def)

lemma sendInvoiceEmail_accounts [simp]:
  "accounts (sendInvoiceEmail e acct doc i l w) = accounts w"
  by (simp add: sendInvoiceEmail_def)

lemma createStripeInvoice_accounts:
  "createStripeInvoice e doc acct w = (r, w') \<Longrightarrow> accounts w' = accounts w"
  by (auto simp: createStripeInvoice_def split: option.splits if_splits)

lemma getInvoicePaymentLink_accounts:
  "getInvoicePaymentLink e i w = (r, w') \<Longrightarrow> accounts w' = accounts w"
  by (auto simp: getInvoicePaymentLink_def split: option.splits if_splits)

lemma updateRecord_accounts:
  "updateRecord e rid f w = (r, w') \<Longrightarrow> accounts w' = accounts w"
  by (auto simp: updateRecord_def split: if_splits)

lemma notifyTry_accounts:
  "notifyTry e acct doc w = (r, w') \<Longrightarrow> accounts w' = accounts w"
  unfolding notifyTry_def
  by (auto split: prod.splits result.splits option.splits
      dest!: createStripeInvoice_accounts getInvoicePaymentLink_accounts updateRecord_accounts)

lemma notify_accounts:
  "notify e acct doc w = (r, w') \<Longrightarrow> accounts w' = accounts w"
  unfolding notify_def
  by (auto split: prod.splits result.splits dest!: notifyTry_accounts)

lemma notify_returns [simp]: "fst (notify e acct doc w) = Returns ()"
  by (simp add: notify_def split: prod.splits result.splits)


lemma afterDelete_returns: "fst (afterDelete e doc w) = Returns ()"
  by (simp add: afterDelete_def split: option.splits prod.splits result.splits)

subsection \<open>The account that afterChange stores\<close>

lemma afterChange_accounts:
  assumes "accountId doc = Some aid" and "accounts w aid = Some acct"
    and "\<not> findByIDThrows e" and "marksOverdue e acct doc \<longrightarrow> \<not> updateRecordThrows e"
    and "\<not> updateAccountThrows e"
  shows "accounts (snd (afterChange e operation previousDoc doc w)) =
           (accounts w)(aid \<mapsto> reconcile (now e) (tza e) acct operation previousDoc doc)"
proof -
  let ?ud = "lateUpdate (now e) (tza e) acct doc
               (paymentUpdate (now e) acct operation previousDoc doc)"
  let ?w' = "\<lambda>w1. w1\<lparr>accounts := (accounts w)(aid \<mapsto> applyUpdate ?ud acct)\<rparr>"
  obtain r1 w1 where w1:
    "(if marksOverdue e acct doc
      then updateRecord e (doc_id doc) (\<lambda>r. r\<lparr>status := Some Overdue\<rparr>) w
      else (Returns (), w)) = (r1, w1)"
    by fastforce
  have r1: "r1 = Returns ()" and a1: "accounts w1 = accounts w"
    using w1 assms(4) by (auto simp: updateRecord_def split: if_splits)
  have u: "updateAccount e aid ?ud w1 = (Returns (), ?w' w1)"
    using assms a1 by (simp add: updateAccount_def)
  obtain r3 w3 where n: "notify e acct doc (?w' w1) = (r3, w3)"
    by fastforce
  have a3: "accounts w3 = (accounts w)(aid \<mapsto> applyUpdate ?ud acct)"
    using notify_accounts [OF n] by simp
  have r3: "r3 = Returns ()"
    using notify_returns [of e acct doc] n by (metis fst_conv)
  show ?thesis
    using assms w1 r1 u n a3 r3
    by (simp add: afterChange_def afterChangeTry_def reconcile_def Let_def)
qed

lemma lateUpdate_billingInfo [simp]:
  "ud_billingInfo (lateUpdate t z acct doc ud) = ud_billingInfo ud"
  by (simp add: lateUpdate_def Let_def)

lemma balanceOf_reconcile:
  "balanceOf (reconcile t z acct operation previousDoc doc) =
     orElse (accountBalance (ud_billingInfo (paymentUpdate t acct operation previousDoc doc))) 0"
  by (simp add: balanceOf_def reconcile_def applyUpdate_def)

lemma orElse_Some [simp]: "orElse (Some v) 0 = v"
  by (simp add: orElse_def)

lemma afterChange_storedBalance:
  assumes "accountId doc = Some aid" and "accounts w aid = Some acct" and "succeeds e"
  shows "storedBalance (snd (afterChange e operation previousDoc doc w)) aid =
           Some (balanceOf (reconcile (now e) (tza e) acct operation previousDoc doc))"
  using assms afterChange_accounts [of doc aid w acct e operation previousDoc]
  by (simp add: storedBalance_def succeeds_def)

lemma sample_lookup:
  "accountId (sampleBill a st p) = Some ''a1''"
  "accounts (sampleWorld b rs) ''a1'' = Some (sampleAccount b)"
  "succeeds sampleEnv"
  "balanceOf (sampleAccount b) = b"
  by (simp_all add: accountId_def sampleBill_def sampleWorld_def sampleAccount_def sampleEnv_def
      succeeds_def balanceOf_def)

subsection \<open>Deleting a billing record\<close>

text \<open>
  C10. When the deleted record's account reference is the id of an existing account (and
  the two calls to the local API succeed), afterDelete writes that account with
  \<open>billingInfo.accountBalance\<close> set to the previous balance minus the record's amount,
  whatever the record's status and without clamping at zero; the rest of the account
  (\<open>paymentInfo\<close> with the late status included), the other accounts, the billing records
  and the console stay as they were.
\<close>

theorem afterDelete_subtracts_amount:
  assumes "accountId doc = Some aid" and "accounts w aid = Some acct" and "succeeds e"
  shows "afterDelete e doc w =
           (Returns (),
            w\<lparr>accounts := (accounts w)(aid \<mapsto>
                 acct\<lparr>billingInfo := (billingInfo acct)
                        \<lparr>accountBalance := Some (balanceOf acct - orElse (amount doc) 0)\<rparr>\<rparr>)\<rparr>)"
  using assms
  by (simp add: afterDelete_def afterDeleteTry_def updateAccount_def deleteUpdate_def
      applyUpdate_def balanceOf_def succeeds_def Let_def)

theorem afterDelete_subtracts_amount_witness:
  "accountId (sampleBill 75 Paid (Some 75)) = Some ''a1''
   \<and> accounts (sampleWorld 20 []) ''a1'' = Some (sampleAccount 20)
   \<and> succeeds sampleEnv
   \<and> storedBalance (snd (afterDelete sampleEnv (sampleBill 75 Paid (Some 75))
                           (sampleWorld 20 []))) ''a1'' = Some (- 55)"
  using afterDelete_subtracts_amount
    [of "sampleBill 75 Paid (Some 75)" "''a1''" "sampleWorld 20 []" "sampleAccount 20" sampleEnv]
  by (simp add: accountId_def sampleBill_def sampleWorld_def sampleAccount_def sampleEnv_def
      succeeds_def storedBalance_def balanceOf_def)

subsection \<open>Updating a paid record\<close>

lemma paid_to_paid_update:
  assumes "status prev = Some Paid" and "status doc = Some Paid"
    and "orElse (paidAmount doc) 0 \<noteq> orElse (paidAmount prev) 0"
  shows "balanceOf (reconcile t z acct Update (Some prev) doc) =
           max 0 (balanceOf acct + (orElse (amount doc) 0 - orElse (amount prev) 0)
                    + (orElse (paidAmount prev) 0 - orElse (paidAmount doc) 0))"
  unfolding balanceOf_reconcile using assms
  by (simp add: paymentUpdate_def balanceChange_def setBalance_def balanceOf_def Let_def
      algebra_simps)

text \<open>
  C6, as the code has it. An update of a paid record that stays paid and changes its
  paidAmount stores the balance
  \<open>max 0 (previous balance + (new amount - old amount) + (old paidAmount - new paidAmount))\<close>:
  the adjustment is the old paidAmount minus the new one, in addition to the amount
  delta, and the result is clamped at zero. For paidAmount 75 to 50 with the amount
  unchanged the balance rises by exactly 25 whenever the previous balance is at least -25.
\<close>

theorem paid_to_paid_balance:
  assumes "accountId doc = Some aid" and "accounts w aid = Some acct" and "succeeds e"
    and "status prev = Some Paid" and "status doc = Some Paid"
    and "orElse (paidAmount doc) 0 \<noteq> orElse (paidAmount prev) 0"
  shows "storedBalance (snd (afterChange e Update (Some prev) doc w)) aid =
           Some (max 0 (balanceOf acct + (orElse (amount doc) 0 - orElse (amount prev) 0)
                          + (orElse (paidAmount prev) 0 - orElse (paidAmount doc) 0)))"
  using assms by (simp add: afterChange_storedBalance paid_to_paid_update)

theorem paid_to_paid_balance_witness:
  "accountId (sampleBill 75 Paid (Some 50)) = Some ''a1''
   \<and> accounts (sampleWorld 100 []) ''a1'' = Some (sampleAccount 100)
   \<and> succeeds sampleEnv
   \<and> status (sampleBill 75 Paid (Some 75)) = Some Paid
   \<and> status (sampleBill 75 Paid (Some 50)) = Some Paid
   \<and> orElse (paidAmount (sampleBill 75 Paid (Some 50))) 0
       \<noteq> orElse (paidAmount (sampleBill 75 Paid (Some 75))) 0
   \<and> storedBalance (snd (afterChange sampleEnv Update (Some (sampleBill 75 Paid (Some 75)))
                              (sampleBill 75 Paid (Some 50)) (sampleWorld 100 []))) ''a1''
       = Some 125"
  using paid_to_paid_balance
    [of "sampleBill 75 Paid (Some 50)" "''a1''" "sampleWorld 100 []" "sampleAccount 100" sampleEnv
        "sampleBill 75 Paid (Some 75)"]
  by (simp add: accountId_def sampleBill_def sampleWorld_def sampleAccount_def sampleEnv_def
      succeeds_def balanceOf_def)

text \<open>
  The claim as stated fails where the clamp engages: from a balance of -100 the update
  75 to 50 stores 0, not -75; from a balance of 10 the update 50 to 75 stores 0, not -15.
\<close>

theorem paid_to_paid_counterexample:
  "storedBalance (sampleWorld (- 100) []) ''a1'' = Some (- 100)
   \<and> storedBalance (snd (afterChange sampleEnv Update (Some (sampleBill 75 Paid (Some 75)))
                         (sampleBill 75 Paid (Some 50)) (sampleWorld (- 100) []))) ''a1''
       \<noteq> Some (- 100 + 25)
   \<and> storedBalance (sampleWorld 10 []) ''a1'' = Some 10
   \<and> storedBalance (snd (afterChange sampleEnv Update (Some (sampleBill 60 Paid (Some 50)))
                         (sampleBill 60 Paid (Some 75)) (sampleWorld 10 []))) ''a1''
       \<noteq> Some (10 + (50 - 75))"
proof -
  have "balanceOf (reconcile t z (sampleAccount (- 100)) Update
          (Some (sampleBill 75 Paid (Some 75))) (sampleBill 75 Paid (Some 50))) = 0" for t z
    by (subst paid_to_paid_update) (simp_all add: sample_lookup, simp_all add: sampleBill_def)
  moreover have "balanceOf (reconcile t z (sampleAccount 10) Update
          (Some (sampleBill 60 Paid (Some 50))) (sampleBill 60 Paid (Some 75))) = 0" for t z
    by (subst paid_to_paid_update) (simp_all add: sample_lookup, simp_all add: sampleBill_def)
  ultimately show ?thesis
    by (simp add: afterChange_storedBalance [OF sample_lookup(1) sample_lookup(2) sample_lookup(3)])
      (simp add: storedBalance_def sample_lookup)
qed

subsection \<open>Running afterChange again for the same create\<close>

lemma create_balance:
  "balanceOf (reconcile t z acct Create previousDoc doc) = balanceOf acct + orElse (amount doc) 0"
  unfolding balanceOf_reconcile
  by (simp add: paymentUpdate_def balanceChange_def balanceOf_def Let_def)

lemma create_twice:
  assumes "accountId doc = Some aid" and "accounts w aid = Some acct" and "succeeds e"
    and "w1 = snd (afterChange e Create None doc w)"
    and "w2 = snd (afterChange e Create None doc w1)"
  shows "storedBalance w1 aid = Some (balanceOf acct + orElse (amount doc) 0)
       \<and> storedBalance w2 aid = Some (balanceOf acct + 2 * orElse (amount doc) 0)"
proof -
  let ?a1 = "reconcile (now e) (tza e) acct Create None doc"
  have 1: "accounts w1 = (accounts w)(aid \<mapsto> ?a1)"
    using assms afterChange_accounts [of doc aid w acct e Create None]
    by (simp add: succeeds_def)
  then have "accounts w1 aid = Some ?a1" by simp
  then have 2: "storedBalance w2 aid =
                  Some (balanceOf (reconcile (now e) (tza e) ?a1 Create None doc))"
    using assms afterChange_storedBalance [of doc aid w1 ?a1 e Create None] by simp
  show ?thesis using 1 2 by (simp add: storedBalance_def create_balance algebra_simps)
qed

text \<open>
  C4, as the code has it. The hook keeps no record of the mutations it has applied and
  has no replay guard: running afterChange a second time for the same create adds the
  record's amount a second time, so the balance after the repeated run is the balance
  after the first run plus the amount (the previous balance plus twice the amount).
\<close>

theorem create_replay_adds_again:
  assumes "accountId doc = Some aid" and "accounts w aid = Some acct" and "succeeds e"
    and "w1 = snd (afterChange e Create None doc w)"
    and "w2 = snd (afterChange e Create None doc w1)"
  shows "storedBalance w1 aid = Some (balanceOf acct + orElse (amount doc) 0)
       \<and> storedBalance w2 aid = Some (balanceOf acct + 2 * orElse (amount doc) 0)"
  using assms by (rule create_twice)

theorem create_replay_adds_again_witness:
  "accountId (sampleBill 50 Pending None) = Some ''a1''
   \<and> accounts (sampleWorld 20 []) ''a1'' = Some (sampleAccount 20)
   \<and> succeeds sampleEnv
   \<and> storedBalance (snd (afterChange sampleEnv Create None (sampleBill 50 Pending None)
                         (sampleWorld 20 []))) ''a1'' = Some 70
   \<and> storedBalance (snd (afterChange sampleEnv Create None (sampleBill 50 Pending None)
                         (snd (afterChange sampleEnv Create None (sampleBill 50 Pending None)
                                 (sampleWorld 20 []))))) ''a1'' = Some 120"
  using create_replay_adds_again [of "sampleBill 50 Pending None" "''a1''" "sampleWorld 20 []"
      "sampleAccount 20" sampleEnv, OF _ _ _ refl refl]
  by (simp add: sample_lookup) (simp add: sampleBill_def)

text \<open>
  The claim as stated fails: after the first run for a record of amount 75 on a balance
  of 0 the balance is 75, after the repeated run it is 150.
\<close>

theorem replay_counterexample:
  "storedBalance (snd (afterChange sampleEnv Create None (sampleBill 75 Pending None)
                         (sampleWorld 0 []))) ''a1'' = Some 75
   \<and> storedBalance (snd (afterChange sampleEnv Create None (sampleBill 75 Pending None)
                         (snd (afterChange sampleEnv Create None (sampleBill 75 Pending None)
                                 (sampleWorld 0 []))))) ''a1'' = Some 150"
  using create_twice [of "sampleBill 75 Pending None" "''a1''" "sampleWorld 0 []"
      "sampleAccount 0" sampleEnv, OF _ _ _ refl refl]
  by (simp add: sample_lookup) (simp add: sampleBill_def)

text \<open>trace extension\<close>

subsection \<open>The invoice and the email after a create\<close>

lemma extends_refl [simp]: "extends w w False"
  by (simp add: extends_def)








lemma extends_accounts_update [simp]:
  "extends w (w'\<lparr>accounts := a\<rparr>) m = extends w w' m"
  by (simp add: extends_def)










subsection \<open>A failing account write\<close>

lemma updateRecord_ids:
  "updateRecord e rid f w = (r, w') \<Longrightarrow> (\<And>x. doc_id (f x) = doc_id x)
     \<Longrightarrow> map doc_id (records w') = map doc_id (records w)"
  by (auto simp: updateRecord_def split: if_splits)

lemma write_failure:
  assumes "updateAccountThrows e" and "\<not> findByIDThrows e"
    and "accountId doc = Some aid" and "accounts w aid = Some acct"
  shows "\<exists>w'. afterChange e operation previousDoc doc w = (Returns (), w')
     \<and> accounts w' = accounts w
     \<and> map doc_id (records w') = map doc_id (records w)
     \<and> trace w' = trace w @ [ConsoleError ''Error updating account from billing record:'']"
  using assms
  by (auto simp: afterChange_def afterChangeTry_def updateAccount_def updateRecord_def Let_def
      emit_def comp_def)


text \<open>
  C2, as the code has it. When the write of the account rejects, afterChange catches
  the error and logs it ("Don't throw - billing record should still be saved"): the hook
  returns normally for every operation, the accounts are unchanged, the billing records
  are all still there, and the console has the one line
  \<open>Error updating account from billing record:\<close> (so no invoice and no email). For a
  create, the operation returns the record and the record is stored, while the account
  has no update.
\<close>

theorem account_write_failure_is_swallowed:
  assumes "updateAccountThrows e" and "\<not> findByIDThrows e"
    and "accountId doc = Some aid" and "accounts w aid = Some acct"
  shows "(\<exists>w'. afterChange e operation previousDoc doc w = (Returns (), w')
            \<and> accounts w' = accounts w
            \<and> map doc_id (records w') = map doc_id (records w)
            \<and> trace w' = trace w @ [ConsoleError ''Error updating account from billing record:''])
       \<and> (doc = beforeChange e Create (withDefaults data) w \<longrightarrow>
           (\<exists>w'. createRecord e data w = (Returns doc, w')
              \<and> accounts w' = accounts w
              \<and> map doc_id (records w') = map doc_id (records w) @ [doc_id doc]
              \<and> trace w' = trace w @ [ConsoleError ''Error updating account from billing record:'']))"
proof (intro conjI impI)
  show "\<exists>w'. afterChange e operation previousDoc doc w = (Returns (), w')
            \<and> accounts w' = accounts w
            \<and> map doc_id (records w') = map doc_id (records w)
            \<and> trace w' = trace w @ [ConsoleError ''Error updating account from billing record:'']"
    using assms by (rule write_failure)
next
  assume d: "doc = beforeChange e Create (withDefaults data) w"
  let ?w1 = "w\<lparr>records := records w @ [doc]\<rparr>"
  have "accounts ?w1 aid = Some acct" using assms by simp
  from write_failure [OF assms(1) assms(2) assms(3) this, of Create None]
  obtain w' where "afterChange e Create None doc ?w1 = (Returns (), w')"
    and "accounts w' = accounts w"
    and "map doc_id (records w') = map doc_id (records w) @ [doc_id doc]"
    and "trace w' = trace w @ [ConsoleError ''Error updating account from billing record:'']"
    by auto
  then show "\<exists>w'. createRecord e data w = (Returns doc, w')
              \<and> accounts w' = accounts w
              \<and> map doc_id (records w') = map doc_id (records w) @ [doc_id doc]
              \<and> trace w' = trace w @ [ConsoleError ''Error updating account from billing record:'']"
    using d by (simp add: createRecord_def Let_def)
qed

lemma dateOnly_values:
  "dateOnly 2024 3 15 = 1710460800000"
  "dateOnly 2024 4 14 = 1713052800000"
  by (simp_all add: dateOnly_def MakeDate_def MakeDay_def DayFromYear_def MonthStart_def
      InLeapYear_def msPerDay_def)


lemma setHours0_mono: "s \<le> t \<Longrightarrow> setHours0 z s \<le> setHours0 z t"
  using Day_mono [of "LocalTime z s" "LocalTime z t"] msPerDay_pos
  by (simp add: setHours0_def UTC_def MakeDate_def LocalTime_def)

lemma beforeChange_sampleBill:
  "beforeChange noWriteEnv Create (withDefaults (sampleBill 75 Pending None)) (sampleWorld b [])
     = sampleBill 75 Pending None"
proof -
  have "setHours0 0 (dateOnly 2024 3 15) \<le> setHours0 0 (dateOnly 2024 4 14)"
    by (rule setHours0_mono) (simp add: dateOnly_values)
  then show ?thesis
    by (simp add: beforeChange_def withDefaults_def sampleBill_def noWriteEnv_def sampleEnv_def
        Let_def)
qed

theorem account_write_failure_is_swallowed_witness:
  "updateAccountThrows noWriteEnv \<and> \<not> findByIDThrows noWriteEnv
   \<and> accountId (sampleBill 75 Pending None) = Some ''a1''
   \<and> accounts (sampleWorld 20 []) ''a1'' = Some (sampleAccount 20)
   \<and> (\<exists>w'. createRecord noWriteEnv (sampleBill 75 Pending None) (sampleWorld 20 []) =
              (Returns (sampleBill 75 Pending None), w')
            \<and> storedBalance w' ''a1'' = Some 20
            \<and> map doc_id (records w') = [''r1'']
            \<and> trace w' = [ConsoleError ''Error updating account from billing record:''])"
proof -
  have f: "updateAccountThrows noWriteEnv" "\<not> findByIDThrows noWriteEnv"
    by (simp_all add: noWriteEnv_def sampleEnv_def)
  from account_write_failure_is_swallowed [of noWriteEnv "sampleBill 75 Pending None" "''a1''"
      "sampleWorld 20 []" "sampleAccount 20" Create None "sampleBill 75 Pending None"]
  show ?thesis
    using f by (auto simp: beforeChange_sampleBill sample_lookup storedBalance_def)
      (simp_all add: sampleWorld_def sampleBill_def)
qed

text \<open>
  The claim as stated fails: with the account write rejecting, the create of a record of
  amount 75 returns the record and stores it, and the account balance is still 0.
\<close>

theorem partial_state_counterexample:
  "fst (createRecord noWriteEnv (sampleBill 75 Pending None) (sampleWorld 0 []))
     = Returns (sampleBill 75 Pending None)
   \<and> map doc_id (records (snd (createRecord noWriteEnv (sampleBill 75 Pending None)
                                     (sampleWorld 0 []))))
     = [''r1'']
   \<and> storedBalance (snd (createRecord noWriteEnv (sampleBill 75 Pending None) (sampleWorld 0 [])))
       ''a1'' = Some 0"
proof -
  have f: "updateAccountThrows noWriteEnv" "\<not> findByIDThrows noWriteEnv"
    by (simp_all add: noWriteEnv_def sampleEnv_def)
  let ?w1 = "(sampleWorld 0 [])\<lparr>records := records (sampleWorld 0 []) @ [sampleBill 75 Pending None]\<rparr>"
  have a: "accounts ?w1 ''a1'' = Some (sampleAccount 0)"
    by (simp add: sampleWorld_def)
  from write_failure [of noWriteEnv "sampleBill 75 Pending None" "''a1''" ?w1 "sampleAccount 0"
      Create None] f sample_lookup(1) a
  obtain w' where w': "afterChange noWriteEnv Create None (sampleBill 75 Pending None) ?w1 = (Returns (), w')"
    "accounts w' = accounts ?w1" "map doc_id (records w') = map doc_id (records ?w1)"
    by auto
  have c: "createRecord noWriteEnv (sampleBill 75 Pending None) (sampleWorld 0 [])
             = (Returns (sampleBill 75 Pending None), w')"
    using w'(1) by (simp add: createRecord_def beforeChange_sampleBill Let_def)
  show ?thesis
    unfolding c using w'(2,3) a
    by (simp add: storedBalance_def sample_lookup) (simp add: sampleWorld_def sampleBill_def)
qed

subsection \<open>commercial-accounts: the next billing date\<close>








subsection \<open>commercial-accounts: the late status\<close>






subsection \<open>Scenario A: creating a record\<close>


lemma sendInvoiceEmail_records [simp]:
  "records (sendInvoiceEmail e acct doc i l w) = records w"
  by (simp add: sendInvoiceEmail_def)












subsection \<open>Generated identifiers\<close>















end
